theory Spec2Isabelle
  imports Complex_Main
begin

section \<open>Unified taxonomy: Google Health Connect exercise types\<close>

text \<open>
  Modelled from the spec: the enumeration \<open>WorkoutType\<close> lives in
  \<^verbatim>\<open>app.schemas.workout_types\<close>, which is not among the sources. The spec calls it a
  closed enumeration of canonical workout types; the members below are exactly those
  that \<^verbatim>\<open>constants/workout_types/google_health.py\<close> refers to.
\<close>

datatype WorkoutType =
  RUNNING | TREADMILL | WALKING | HIKING | CYCLING | INDOOR_CYCLING
  |POOL_SWIMMING | OPEN_WATER_SWIMMING | STRENGTH_TRAINING | ELLIPTICAL | CARDIO_TRAINING | OTHER
  |STRETCHING | FITNESS_EQUIPMENT | PILATES | ROCK_CLIMBING | INLINE_SKATING | ROWING_MACHINE
  |STAIR_CLIMBING | YOGA | ALPINE_SKIING | CROSS_COUNTRY_SKIING | HOCKEY | ICE_SKATING
  |SNOWBOARDING | SNOWSHOEING | KAYAKING | KITESURFING | PADDLING | ROWING
  |SAILING | DIVING | SURFING | WINDSURFING | AMERICAN_FOOTBALL | FOOTBALL
  |BADMINTON | BASEBALL | BASKETBALL | HANDBALL | RUGBY | SOCCER
  |VOLLEYBALL | SQUASH | TABLE_TENNIS | TENNIS | PICKLEBALL | BOXING
  |MARTIAL_ARTS | DANCE | GOLF | HORSEBACK_RIDING | STAND_UP_PADDLEBOARDING

text \<open>
  \<^verbatim>\<open>GOOGLE_HEALTH_WORKOUT_TYPE_MAPPINGS\<close>: the table of triples
  (exercise type id, exercise type name, unified type), in source order. The source
  table lists several ids more than once (79, 80, 84, 85, 86, 88, 91, 92, 93) and the
  name \<^verbatim>\<open>EXERCISE_TYPE_MARTIAL_ARTS\<close> twice.
\<close>

definition GOOGLE_HEALTH_WORKOUT_TYPE_MAPPINGS :: "(int \<times> string \<times> WorkoutType) list" where
  "GOOGLE_HEALTH_WORKOUT_TYPE_MAPPINGS = [
    (79, ''EXERCISE_TYPE_RUNNING'', RUNNING),
    (80, ''EXERCISE_TYPE_RUNNING_TREADMILL'', TREADMILL),
    (90, ''EXERCISE_TYPE_WALKING'', WALKING),
    (36, ''EXERCISE_TYPE_HIKING'', HIKING),
    (8, ''EXERCISE_TYPE_BIKING'', CYCLING),
    (9, ''EXERCISE_TYPE_BIKING_STATIONARY'', INDOOR_CYCLING),
    (82, ''EXERCISE_TYPE_SWIMMING_POOL'', POOL_SWIMMING),
    (83, ''EXERCISE_TYPE_SWIMMING_OPEN_WATER'', OPEN_WATER_SWIMMING),
    (5, ''EXERCISE_TYPE_BACK_EXTENSION'', STRENGTH_TRAINING),
    (10, ''EXERCISE_TYPE_CALISTHENICS'', STRENGTH_TRAINING),
    (13, ''EXERCISE_TYPE_CRUNCH'', STRENGTH_TRAINING),
    (25, ''EXERCISE_TYPE_ELLIPTICAL'', ELLIPTICAL),
    (26, ''EXERCISE_TYPE_EXERCISE_CLASS'', CARDIO_TRAINING),
    (28, ''EXERCISE_TYPE_FRISBEE_DISC'', OTHER),
    (32, ''EXERCISE_TYPE_GUIDED_BREATHING'', STRETCHING),
    (33, ''EXERCISE_TYPE_GYMNASTICS'', FITNESS_EQUIPMENT),
    (37, ''EXERCISE_TYPE_HIGH_INTENSITY_INTERVAL_TRAINING'', CARDIO_TRAINING),
    (45, ''EXERCISE_TYPE_JUMP_ROPE'', CARDIO_TRAINING),
    (55, ''EXERCISE_TYPE_PILATES'', PILATES),
    (56, ''EXERCISE_TYPE_PLANK'', STRENGTH_TRAINING),
    (74, ''EXERCISE_TYPE_ROCK_CLIMBING'', ROCK_CLIMBING),
    (75, ''EXERCISE_TYPE_ROLLER_SKATING'', INLINE_SKATING),
    (78, ''EXERCISE_TYPE_ROWING_MACHINE'', ROWING_MACHINE),
    (84, ''EXERCISE_TYPE_STAIR_CLIMBING'', STAIR_CLIMBING),
    (85, ''EXERCISE_TYPE_STAIR_CLIMBING_MACHINE'', STAIR_CLIMBING),
    (86, ''EXERCISE_TYPE_STRENGTH_TRAINING'', STRENGTH_TRAINING),
    (87, ''EXERCISE_TYPE_STRETCHING'', STRETCHING),
    (91, ''EXERCISE_TYPE_WEIGHTLIFTING'', STRENGTH_TRAINING),
    (92, ''EXERCISE_TYPE_WHEELCHAIR'', OTHER),
    (93, ''EXERCISE_TYPE_YOGA'', YOGA),
    (17, ''EXERCISE_TYPE_DOWNHILL_SKIING'', ALPINE_SKIING),
    (18, ''EXERCISE_TYPE_CROSS_COUNTRY_SKIING'', CROSS_COUNTRY_SKIING),
    (38, ''EXERCISE_TYPE_ICE_HOCKEY'', HOCKEY),
    (39, ''EXERCISE_TYPE_ICE_SKATING'', ICE_SKATING),
    (81, ''EXERCISE_TYPE_SNOWBOARDING'', SNOWBOARDING),
    (89, ''EXERCISE_TYPE_SNOWSHOEING'', SNOWSHOEING),
    (46, ''EXERCISE_TYPE_KAYAKING'', KAYAKING),
    (47, ''EXERCISE_TYPE_KITESURFING'', KITESURFING),
    (53, ''EXERCISE_TYPE_PARAGLIDING'', OTHER),
    (54, ''EXERCISE_TYPE_PADDLING'', PADDLING),
    (76, ''EXERCISE_TYPE_ROWING'', ROWING),
    (77, ''EXERCISE_TYPE_SAILING'', SAILING),
    (80, ''EXERCISE_TYPE_SCUBA_DIVING'', DIVING),
    (88, ''EXERCISE_TYPE_SURFING'', SURFING),
    (91, ''EXERCISE_TYPE_WATER_POLO'', OTHER),
    (92, ''EXERCISE_TYPE_WINDSURFING'', WINDSURFING),
    (3, ''EXERCISE_TYPE_AMERICAN_FOOTBALL'', AMERICAN_FOOTBALL),
    (4, ''EXERCISE_TYPE_AUSTRALIAN_FOOTBALL'', FOOTBALL),
    (6, ''EXERCISE_TYPE_BADMINTON'', BADMINTON),
    (7, ''EXERCISE_TYPE_BASEBALL'', BASEBALL),
    (11, ''EXERCISE_TYPE_BASKETBALL'', BASKETBALL),
    (14, ''EXERCISE_TYPE_CRICKET'', OTHER),
    (27, ''EXERCISE_TYPE_FENCING'', OTHER),
    (31, ''EXERCISE_TYPE_HANDBALL'', HANDBALL),
    (40, ''EXERCISE_TYPE_LACROSSE'', OTHER),
    (73, ''EXERCISE_TYPE_RUGBY'', RUGBY),
    (79, ''EXERCISE_TYPE_SOCCER'', SOCCER),
    (80, ''EXERCISE_TYPE_SOFTBALL'', BASEBALL),
    (88, ''EXERCISE_TYPE_VOLLEYBALL'', VOLLEYBALL),
    (57, ''EXERCISE_TYPE_RACQUETBALL'', OTHER),
    (84, ''EXERCISE_TYPE_SQUASH'', SQUASH),
    (85, ''EXERCISE_TYPE_TABLE_TENNIS'', TABLE_TENNIS),
    (86, ''EXERCISE_TYPE_TENNIS'', TENNIS),
    (58, ''EXERCISE_TYPE_PICKLEBALL'', PICKLEBALL),
    (12, ''EXERCISE_TYPE_BOXING'', BOXING),
    (48, ''EXERCISE_TYPE_MARTIAL_ARTS'', MARTIAL_ARTS),
    (93, ''EXERCISE_TYPE_WRESTLING'', MARTIAL_ARTS),
    (15, ''EXERCISE_TYPE_DANCING'', DANCE),
    (1, ''EXERCISE_TYPE_ALPINE_SKIING'', ALPINE_SKIING),
    (2, ''EXERCISE_TYPE_ARCHERY'', OTHER),
    (16, ''EXERCISE_TYPE_GOLF'', GOLF),
    (29, ''EXERCISE_TYPE_GARDENING'', OTHER),
    (34, ''EXERCISE_TYPE_HORSEBACK_RIDING'', HORSEBACK_RIDING),
    (41, ''EXERCISE_TYPE_MARTIAL_ARTS'', MARTIAL_ARTS),
    (50, ''EXERCISE_TYPE_PADDLEBOARDING'', STAND_UP_PADDLEBOARDING),
    (59, ''EXERCISE_TYPE_SKATING'', ICE_SKATING),
    (60, ''EXERCISE_TYPE_SKATEBOARDING'', OTHER),
    (0, ''EXERCISE_TYPE_OTHER_WORKOUT'', OTHER)
  ]"

text \<open>
  A Python dict comprehension \<^verbatim>\<open>{k: v for k, v in pairs}\<close> inserts the pairs from left
  to right, so a later pair overwrites an earlier one with the same key.
\<close>

definition dict_of :: "('k \<times> 'v) list \<Rightarrow> ('k \<rightharpoonup> 'v)" where
  "dict_of kvs = fold (\<lambda>(k, v) m. m(k \<mapsto> v)) kvs Map.empty"

definition GOOGLE_HEALTH_ID_TO_UNIFIED :: "int \<rightharpoonup> WorkoutType" where
  "GOOGLE_HEALTH_ID_TO_UNIFIED =
     dict_of (map (\<lambda>(exercise_id, _, unified_type). (exercise_id, unified_type))
                  GOOGLE_HEALTH_WORKOUT_TYPE_MAPPINGS)"

definition GOOGLE_HEALTH_NAME_TO_UNIFIED :: "string \<rightharpoonup> WorkoutType" where
  "GOOGLE_HEALTH_NAME_TO_UNIFIED =
     dict_of (map (\<lambda>(_, name, unified_type). (name, unified_type))
                  GOOGLE_HEALTH_WORKOUT_TYPE_MAPPINGS)"

definition GOOGLE_HEALTH_ID_TO_NAME :: "int \<rightharpoonup> string" where
  "GOOGLE_HEALTH_ID_TO_NAME =
     dict_of (map (\<lambda>(exercise_id, name, _). (exercise_id, name))
                  GOOGLE_HEALTH_WORKOUT_TYPE_MAPPINGS)"

text \<open>\<^verbatim>\<open>d.get(key, default)\<close> on a dict.\<close>

definition dict_get :: "('k \<rightharpoonup> 'v) \<Rightarrow> 'k \<Rightarrow> 'v \<Rightarrow> 'v" where
  "dict_get d k dflt = (case d k of Some v \<Rightarrow> v | None \<Rightarrow> dflt)"

definition get_unified_workout_type_by_id :: "int \<Rightarrow> WorkoutType" where
  "get_unified_workout_type_by_id exercise_type_id =
     dict_get GOOGLE_HEALTH_ID_TO_UNIFIED exercise_type_id OTHER"

definition get_unified_workout_type_by_name :: "string \<Rightarrow> WorkoutType" where
  "get_unified_workout_type_by_name exercise_type_name =
     dict_get GOOGLE_HEALTH_NAME_TO_UNIFIED exercise_type_name OTHER"

definition get_exercise_name :: "int \<Rightarrow> string" where
  "get_exercise_name exercise_type_id =
     dict_get GOOGLE_HEALTH_ID_TO_NAME exercise_type_id ''Unknown''"


section \<open>Python values, exceptions and the standard library\<close>

text \<open>
  Exceptions are values. Every exception class below derives from Python's
  \<^verbatim>\<open>Exception\<close> (\<^verbatim>\<open>decimal.InvalidOperation\<close> derives from \<^verbatim>\<open>ArithmeticError\<close>, not from
  \<^verbatim>\<open>ValueError\<close>). A \<open>ValueError\<close> carries its message when the repository's code builds
  it, and \<open>None\<close> when the standard library raises it (its wording is not modelled).
\<close>

datatype pyerr =
    AttributeError
  | TypeError
  | InvalidOperation
  | OverflowError
  | ValueError "string option"

text \<open>
  A decoded JSON payload, as \<^verbatim>\<open>json.loads\<close> returns it: \<^verbatim>\<open>None\<close>, \<^verbatim>\<open>bool\<close>, \<^verbatim>\<open>int\<close>,
  \<^verbatim>\<open>float\<close>, \<^verbatim>\<open>str\<close>, \<^verbatim>\<open>list\<close> and \<^verbatim>\<open>dict\<close>. A dict is kept as an association list
  in which the first binding of a key is the one that counts.

  Numbers are exact: a Python \<^verbatim>\<open>float\<close> and a \<^verbatim>\<open>Decimal\<close> are both modelled by the
  rational number they denote. A JSON float stands for the value that \<^verbatim>\<open>str\<close> prints
  for it, so \<^verbatim>\<open>Decimal(str(x))\<close> is the number itself. What is not modelled: the
  rounding and the range of binary floating point, the 28 significant digits of the
  default decimal context, and the non-finite values \<^verbatim>\<open>NaN\<close> and \<^verbatim>\<open>Infinity\<close> that
  Python's JSON decoder accepts beyond the JSON standard.
\<close>

datatype json =
    JNull
  | JBool bool
  | JInt int
  | JFloat rat
  | JStr string
  | JList "json list"
  | JDict "(string \<times> json) list"

type_synonym Decimal = rat

text \<open>\<^verbatim>\<open>x.get(key, default)\<close>: only a dict has the method.\<close>

fun py_get :: "json \<Rightarrow> string \<Rightarrow> json \<Rightarrow> pyerr + json" where
  "py_get (JDict kvs) key dflt = Inr (case map_of kvs key of Some v \<Rightarrow> v | None \<Rightarrow> dflt)"
| "py_get _ key dflt = Inl AttributeError"

text \<open>Truth value testing, as \<^verbatim>\<open>not x\<close> and \<^verbatim>\<open>x or y\<close> use it.\<close>

fun truthy :: "json \<Rightarrow> bool" where
  "truthy JNull = False"
| "truthy (JBool b) = b"
| "truthy (JInt i) = (i \<noteq> 0)"
| "truthy (JFloat r) = (r \<noteq> 0)"
| "truthy (JStr s) = (s \<noteq> [])"
| "truthy (JList xs) = (xs \<noteq> [])"
| "truthy (JDict kvs) = (kvs \<noteq> [])"

text \<open>
  The elements a \<^verbatim>\<open>for\<close> loop draws from a value: the items of a list, the characters
  of a string, the keys of a dict; anything else is not iterable.
\<close>

fun py_iter :: "json \<Rightarrow> pyerr + json list" where
  "py_iter (JList xs) = Inr xs"
| "py_iter (JStr s) = Inr (map (\<lambda>c. JStr [c]) s)"
| "py_iter (JDict kvs) = Inr (map (\<lambda>kv. JStr (fst kv)) kvs)"
| "py_iter _ = Inl TypeError"

text \<open>
  The numeric value of a number; \<^verbatim>\<open>True\<close> and \<^verbatim>\<open>False\<close> are the integers 1 and 0.
  Only applied to values that passed a numeric comparison.
\<close>

fun num_val :: "json \<Rightarrow> rat" where
  "num_val (JInt i) = of_int i"
| "num_val (JFloat r) = r"
| "num_val (JBool b) = (if b then 1 else 0)"
| "num_val _ = 0"


text \<open>\<^verbatim>\<open>x > 0\<close>: defined on numbers (and booleans), a \<open>TypeError\<close> on everything else.\<close>

fun py_gt0 :: "json \<Rightarrow> pyerr + bool" where
  "py_gt0 (JInt i) = Inr (0 < i)"
| "py_gt0 (JFloat r) = Inr (0 < r)"
| "py_gt0 (JBool b) = Inr b"
| "py_gt0 _ = Inl TypeError"

text \<open>
  \<^verbatim>\<open>min(xs)\<close> and \<^verbatim>\<open>max(xs)\<close> on a non-empty list of numbers: the scan keeps the
  first smallest (largest) item, replacing it only by a strictly smaller (larger) one.
\<close>

fun py_min_from :: "json \<Rightarrow> json list \<Rightarrow> json" where
  "py_min_from best [] = best"
| "py_min_from best (x # xs) = py_min_from (if num_val x < num_val best then x else best) xs"

fun py_max_from :: "json \<Rightarrow> json list \<Rightarrow> json" where
  "py_max_from best [] = best"
| "py_max_from best (x # xs) = py_max_from (if num_val best < num_val x then x else best) xs"

text \<open>\<^verbatim>\<open>int(x)\<close> of a finite float truncates toward zero.\<close>

definition py_int :: "rat \<Rightarrow> int" where
  "py_int x = (if 0 \<le> x then \<lfloor>x\<rfloor> else \<lceil>x\<rceil>)"

text \<open>
  A \<^verbatim>\<open>datetime\<close>: its wall-clock fields as microseconds since 1970-01-01 00:00:00, and
  its UTC offset in microseconds, \<open>None\<close> for a naive datetime (one without \<^verbatim>\<open>tzinfo\<close>).
\<close>

record datetime =
  wall :: int
  utcoffset :: "int option"

text \<open>\<^verbatim>\<open>datetime.now()\<close> is naive; the argument is the reading of the wall clock.\<close>

definition naive :: "int \<Rightarrow> datetime" where
  "naive t = \<lparr>wall = t, utcoffset = None\<rparr>"

text \<open>
  \<^verbatim>\<open>a - b\<close> on datetimes, a \<^verbatim>\<open>timedelta\<close> in microseconds: two naive datetimes are
  subtracted as they stand, two aware ones as instants, and a naive and an aware one
  cannot be subtracted (\<open>TypeError\<close>).
\<close>

definition datetime_sub :: "datetime \<Rightarrow> datetime \<Rightarrow> pyerr + int" where
  "datetime_sub a b =
     (case (utcoffset a, utcoffset b) of
        (None, None) \<Rightarrow> Inr (wall a - wall b)
      | (Some oa, Some ob) \<Rightarrow> Inr ((wall a - oa) - (wall b - ob))
      | _ \<Rightarrow> Inl TypeError)"

text \<open>\<^verbatim>\<open>int(td.total_seconds())\<close> for a \<^verbatim>\<open>timedelta\<close> of \<open>us\<close> microseconds.\<close>

definition total_seconds_int :: "int \<Rightarrow> int" where
  "total_seconds_int us = py_int (of_int us / 1000000)"

text \<open>A Python \<^verbatim>\<open>float\<close> parsed from text can also be infinite or not a number.\<close>

datatype pyfloat = Finite rat | PosInf | NegInf | NaN

text \<open>\<^verbatim>\<open>int(x * k)\<close> for a float \<open>x\<close> and a positive integer constant \<open>k\<close>.\<close>

fun int_of_scaled :: "pyfloat \<Rightarrow> int \<Rightarrow> pyerr + int" where
  "int_of_scaled (Finite r) k = Inr (py_int (r * of_int k))"
| "int_of_scaled PosInf k = Inl OverflowError"
| "int_of_scaled NegInf k = Inl OverflowError"
| "int_of_scaled NaN k = Inl (ValueError None)"

text \<open>
  The parsers of the standard library are parameters of the model: the handlers are
  verified for every behaviour of
  \<^item> \<^verbatim>\<open>datetime.fromisoformat(s)\<close> and \<^verbatim>\<open>datetime.strptime(s, format)\<close>, where \<open>None\<close>
    stands for the \<open>ValueError\<close> they raise on a string they do not accept;
  \<^item> \<^verbatim>\<open>float(s)\<close>, where \<open>None\<close> stands for its \<open>ValueError\<close>;
  \<^item> \<^verbatim>\<open>Decimal(s)\<close>, where \<open>None\<close> stands for its \<open>InvalidOperation\<close>.
\<close>

record pylib =
  fromisoformat :: "string \<Rightarrow> datetime option"
  strptime :: "string \<Rightarrow> string \<Rightarrow> datetime option"
  py_float :: "string \<Rightarrow> pyfloat option"
  py_Decimal :: "string \<Rightarrow> Decimal option"

text \<open>
  \<^verbatim>\<open>Decimal(str(x))\<close>: exact on a number; the text of a string is parsed as it stands;
  \<^verbatim>\<open>str\<close> of \<^verbatim>\<open>None\<close>, of a boolean, of a list and of a dict is no decimal literal.
\<close>

fun Decimal_str :: "pylib \<Rightarrow> json \<Rightarrow> pyerr + Decimal" where
  "Decimal_str L (JInt i) = Inr (of_int i)"
| "Decimal_str L (JFloat r) = Inr r"
| "Decimal_str L (JStr s) = (case py_Decimal L s of Some d \<Rightarrow> Inr d | None \<Rightarrow> Inl InvalidOperation)"
| "Decimal_str L _ = Inl InvalidOperation"

text \<open>\<^verbatim>\<open>s.endswith(suffix)\<close> and \<^verbatim>\<open>s.replace(c, new)\<close> for a one-character \<open>c\<close>.\<close>

definition endswith :: "string \<Rightarrow> string \<Rightarrow> bool" where
  "endswith s suffix = (length suffix \<le> length s \<and> drop (length s - length suffix) s = suffix)"

definition replace_char :: "char \<Rightarrow> string \<Rightarrow> string \<Rightarrow> string" where
  "replace_char c new s = concat (map (\<lambda>x. if x = c then new else [x]) s)"


section \<open>The canonical record pair\<close>

text \<open>
  Modelled from the spec: the schemas \<^verbatim>\<open>EventRecordCreate\<close> and
  \<^verbatim>\<open>EventRecordDetailCreate\<close> (\<^verbatim>\<open>app.schemas\<close>) are not among the sources. The summary
  record has the fields the handlers pass to its constructor, the detail the optional
  metrics the spec lists; both are plain containers, as the spec has normalization
  validate nothing. The constructor arguments \<^verbatim>\<open>id\<close> and \<^verbatim>\<open>type\<close> are the fields
  \<open>event_id\<close> and \<open>workout_type\<close>; \<open>workout_type\<close> holds the enumeration member whose
  \<^verbatim>\<open>.value\<close> the code stores. Values the handler copies from the payload unchanged
  stay JSON values.
\<close>

record EventRecordCreate =
  event_id :: nat
  category :: string
  workout_type :: WorkoutType
  source_name :: json
  device_id :: json
  duration_seconds :: int
  start_datetime :: datetime
  end_datetime :: datetime
  provider_id :: json
  user_id :: "nat option"

record EventRecordDetailCreate =
  record_id :: nat
  heart_rate_avg :: "Decimal option"
  heart_rate_max :: "Decimal option"
  heart_rate_min :: "Decimal option"
  distance_total :: "Decimal option"
  calories_total :: "Decimal option"
  elevation_gain :: "Decimal option"
  elevation_loss :: "Decimal option"
  temperature :: "Decimal option"
  humidity :: "Decimal option"

text \<open>\<^verbatim>\<open>EventRecordDetailCreate(record_id=workout_id, **metrics)\<close>.\<close>

definition detail_of_metrics :: "nat \<Rightarrow> (string \<rightharpoonup> Decimal) \<Rightarrow> EventRecordDetailCreate" where
  "detail_of_metrics workout_id metrics =
     \<lparr>record_id = workout_id,
      heart_rate_avg = metrics ''heart_rate_avg'',
      heart_rate_max = metrics ''heart_rate_max'',
      heart_rate_min = metrics ''heart_rate_min'',
      distance_total = metrics ''distance_total'',
      calories_total = metrics ''calories_total'',
      elevation_gain = metrics ''elevation_gain'',
      elevation_loss = metrics ''elevation_loss'',
      temperature = metrics ''temperature'',
      humidity = metrics ''humidity''\<rparr>"

text \<open>
  What a session parse draws from outside the payload: the readings \<^verbatim>\<open>datetime.now()\<close>
  returns if it is called for the start and for the end timestamp, and the identifier
  \<^verbatim>\<open>uuid4()\<close> returns.
\<close>

record session_env =
  now_start :: int
  now_end :: int
  new_uuid :: nat

section \<open>The Health Connect handler\<close>

text \<open>
  \<^verbatim>\<open>HealthConnectHandler._parse_datetime\<close>. The argument is whatever the payload holds
  under \<^verbatim>\<open>startTime\<close> or \<^verbatim>\<open>endTime\<close>: a falsy value gives the current time; a string is
  parsed, and a \<open>ValueError\<close> of the parser gives the current time as well; any
  other value has no \<^verbatim>\<open>endswith\<close>, and that \<open>AttributeError\<close> is not caught here.
  \<open>isoformat_argument\<close> is the string handed to \<^verbatim>\<open>fromisoformat\<close>: if the text ends
  with \<^verbatim>\<open>Z\<close>, every \<^verbatim>\<open>Z\<close> in it is replaced by \<^verbatim>\<open>+00:00\<close>.
\<close>

definition isoformat_argument :: "string \<Rightarrow> string" where
  "isoformat_argument s = (if endswith s ''Z'' then replace_char CHR ''Z'' ''+00:00'' s else s)"

definition HealthConnect_parse_datetime :: "pylib \<Rightarrow> int \<Rightarrow> json \<Rightarrow> pyerr + datetime" where
  "HealthConnect_parse_datetime L now date_str =
     (if \<not> truthy date_str then Inr (naive now)
      else case date_str of
        JStr s \<Rightarrow>
          (case fromisoformat L (isoformat_argument s) of
             Some dt \<Rightarrow> Inr dt
           | None \<Rightarrow> Inr (naive now))
      | _ \<Rightarrow> Inl AttributeError)"

text \<open>\<^verbatim>\<open>record.get(outer, {}).get(inner, 0)\<close>, the value of one sub-record.\<close>

definition nested_get :: "json \<Rightarrow> string \<Rightarrow> string \<Rightarrow> pyerr + json" where
  "nested_get record outer inner =
     (case py_get record outer (JDict []) of
        Inl e \<Rightarrow> Inl e
      | Inr d \<Rightarrow> py_get d inner (JInt 0))"

text \<open>
  \<^verbatim>\<open>Decimal(str(record.get(outer, {}).get(inner, 0)))\<close>, what the loops of
  \<^verbatim>\<open>_extract_distance\<close> and \<^verbatim>\<open>_extract_calories\<close> add for one record.
\<close>

definition record_value :: "pylib \<Rightarrow> string \<Rightarrow> string \<Rightarrow> json \<Rightarrow> pyerr + Decimal" where
  "record_value L outer inner record =
     (case nested_get record outer inner of
        Inl e \<Rightarrow> Inl e
      | Inr v \<Rightarrow> Decimal_str L v)"

text \<open>
  The loop of \<^verbatim>\<open>_extract_distance\<close> and of \<^verbatim>\<open>_extract_calories\<close>:
  \<^verbatim>\<open>total += Decimal(str(record.get(outer, {}).get(inner, 0)))\<close> for each record,
  from the running total \<open>subtotal\<close>.
\<close>

fun sum_records :: "pylib \<Rightarrow> string \<Rightarrow> string \<Rightarrow> json list \<Rightarrow> Decimal \<Rightarrow> pyerr + Decimal" where
  "sum_records L outer inner [] subtotal = Inr subtotal"
| "sum_records L outer inner (record # rest) subtotal =
     (case record_value L outer inner record of
        Inl e \<Rightarrow> Inl e
      | Inr x \<Rightarrow> sum_records L outer inner rest (subtotal + x))"

definition HealthConnect_extract_distance :: "pylib \<Rightarrow> json \<Rightarrow> pyerr + Decimal option" where
  "HealthConnect_extract_distance L session =
     (case py_get session ''distanceRecords'' (JList []) of
        Inl e \<Rightarrow> Inl e
      | Inr distance_records \<Rightarrow>
          if \<not> truthy distance_records then Inr None
          else case py_iter distance_records of
            Inl e \<Rightarrow> Inl e
          | Inr records \<Rightarrow>
              (case sum_records L ''distance'' ''inMeters'' records 0 of
                 Inl e \<Rightarrow> Inl e
               | Inr total_distance \<Rightarrow>
                   Inr (if 0 < total_distance then Some total_distance else None)))"

definition HealthConnect_extract_calories :: "pylib \<Rightarrow> json \<Rightarrow> pyerr + Decimal option" where
  "HealthConnect_extract_calories L session =
     (case py_get session ''caloriesRecords'' (JList []) of
        Inl e \<Rightarrow> Inl e
      | Inr calories_records \<Rightarrow>
          if \<not> truthy calories_records then Inr None
          else case py_iter calories_records of
            Inl e \<Rightarrow> Inl e
          | Inr records \<Rightarrow>
              (case sum_records L ''energy'' ''inKilocalories'' records 0 of
                 Inl e \<Rightarrow> Inl e
               | Inr total_calories \<Rightarrow>
                   Inr (if 0 < total_calories then Some total_calories else None)))"

text \<open>
  The two loops of \<^verbatim>\<open>_extract_heart_rate\<close>: the inner one appends every sample whose
  \<^verbatim>\<open>beatsPerMinute\<close> is greater than zero to \<^verbatim>\<open>all_bpm\<close>, the outer one runs it over the
  \<^verbatim>\<open>samples\<close> of every record.
\<close>

fun collect_samples :: "json list \<Rightarrow> json list \<Rightarrow> pyerr + json list" where
  "collect_samples [] all_bpm = Inr all_bpm"
| "collect_samples (sample # rest) all_bpm =
     (case py_get sample ''beatsPerMinute'' (JInt 0) of
        Inl e \<Rightarrow> Inl e
      | Inr bpm \<Rightarrow>
          (case py_gt0 bpm of
             Inl e \<Rightarrow> Inl e
           | Inr positive \<Rightarrow>
               collect_samples rest (if positive then all_bpm @ [bpm] else all_bpm)))"

fun collect_heart_rate :: "json list \<Rightarrow> json list \<Rightarrow> pyerr + json list" where
  "collect_heart_rate [] all_bpm = Inr all_bpm"
| "collect_heart_rate (record # rest) all_bpm =
     (case py_get record ''samples'' (JList []) of
        Inl e \<Rightarrow> Inl e
      | Inr samples \<Rightarrow>
          (case py_iter samples of
             Inl e \<Rightarrow> Inl e
           | Inr items \<Rightarrow>
               (case collect_samples items all_bpm of
                  Inl e \<Rightarrow> Inl e
                | Inr all_bpm' \<Rightarrow> collect_heart_rate rest all_bpm')))"

text \<open>
  The statistics of a non-empty \<^verbatim>\<open>all_bpm\<close>, in the order the dict display evaluates
  them: \<^verbatim>\<open>Decimal(str(min(all_bpm)))\<close>, \<^verbatim>\<open>Decimal(str(max(all_bpm)))\<close> and
  \<^verbatim>\<open>Decimal(str(sum(all_bpm) / len(all_bpm)))\<close>. The quotient is a float, so its
  conversion cannot fail. (\<^verbatim>\<open>min\<close> of an empty list raises \<open>ValueError\<close>; the caller
  returns before that.)
\<close>

fun heart_rate_stats :: "pylib \<Rightarrow> json list \<Rightarrow> pyerr + (string \<rightharpoonup> Decimal)" where
  "heart_rate_stats L [] = Inl (ValueError None)"
| "heart_rate_stats L (b # bs) =
     (case Decimal_str L (py_min_from b bs) of
        Inl e \<Rightarrow> Inl e
      | Inr mn \<Rightarrow>
          (case Decimal_str L (py_max_from b bs) of
             Inl e \<Rightarrow> Inl e
           | Inr mx \<Rightarrow>
               Inr [''min'' \<mapsto> mn, ''max'' \<mapsto> mx,
                    ''avg'' \<mapsto> sum_list (map num_val (b # bs)) / of_nat (length (b # bs))]))"

definition HealthConnect_extract_heart_rate :: "pylib \<Rightarrow> json \<Rightarrow> pyerr + (string \<rightharpoonup> Decimal)" where
  "HealthConnect_extract_heart_rate L session =
     (case py_get session ''heartRateRecords'' (JList []) of
        Inl e \<Rightarrow> Inl e
      | Inr hr_records \<Rightarrow>
          if \<not> truthy hr_records then Inr Map.empty
          else case py_iter hr_records of
            Inl e \<Rightarrow> Inl e
          | Inr records \<Rightarrow>
              (case collect_heart_rate records [] of
                 Inl e \<Rightarrow> Inl e
               | Inr all_bpm \<Rightarrow>
                   if all_bpm = [] then Inr Map.empty else heart_rate_stats L all_bpm))"

text \<open>
  The loop of \<^verbatim>\<open>_extract_elevation\<close>: an entry is added to \<^verbatim>\<open>total_gain\<close> only if it is
  greater than zero.
\<close>

fun sum_elevation :: "pylib \<Rightarrow> json list \<Rightarrow> Decimal \<Rightarrow> pyerr + Decimal" where
  "sum_elevation L [] total_gain = Inr total_gain"
| "sum_elevation L (record # rest) total_gain =
     (case nested_get record ''elevation'' ''inMeters'' of
        Inl e \<Rightarrow> Inl e
      | Inr elevation \<Rightarrow>
          (case py_gt0 elevation of
             Inl e \<Rightarrow> Inl e
           | Inr positive \<Rightarrow>
               if positive then
                 (case Decimal_str L elevation of
                    Inl e \<Rightarrow> Inl e
                  | Inr x \<Rightarrow> sum_elevation L rest (total_gain + x))
               else sum_elevation L rest total_gain))"

definition HealthConnect_extract_elevation :: "pylib \<Rightarrow> json \<Rightarrow> pyerr + (string \<rightharpoonup> Decimal)" where
  "HealthConnect_extract_elevation L session =
     (case py_get session ''elevationRecords'' (JList []) of
        Inl e \<Rightarrow> Inl e
      | Inr elevation_records \<Rightarrow>
          if \<not> truthy elevation_records then Inr Map.empty
          else case py_iter elevation_records of
            Inl e \<Rightarrow> Inl e
          | Inr records \<Rightarrow>
              (case sum_elevation L records 0 of
                 Inl e \<Rightarrow> Inl e
               | Inr total_gain \<Rightarrow>
                   Inr (if 0 < total_gain then [''gain'' \<mapsto> total_gain] else Map.empty)))"

definition HealthConnect_build_metrics ::
  "(string \<rightharpoonup> Decimal) \<Rightarrow> Decimal option \<Rightarrow> Decimal option \<Rightarrow> (string \<rightharpoonup> Decimal)
     \<Rightarrow> (string \<rightharpoonup> Decimal)" where
  "HealthConnect_build_metrics heart_rate_data distance_meters calories elevation_data =
     (let metrics0 = Map.empty;
          metrics1 = (case heart_rate_data ''avg'' of
                        Some v \<Rightarrow> metrics0(''heart_rate_avg'' \<mapsto> v) | None \<Rightarrow> metrics0);
          metrics2 = (case heart_rate_data ''max'' of
                        Some v \<Rightarrow> metrics1(''heart_rate_max'' \<mapsto> v) | None \<Rightarrow> metrics1);
          metrics3 = (case heart_rate_data ''min'' of
                        Some v \<Rightarrow> metrics2(''heart_rate_min'' \<mapsto> v) | None \<Rightarrow> metrics2);
          metrics4 = (case distance_meters of
                        Some v \<Rightarrow> metrics3(''distance_total'' \<mapsto> v) | None \<Rightarrow> metrics3);
          metrics5 = (case calories of
                        Some v \<Rightarrow> metrics4(''calories_total'' \<mapsto> v) | None \<Rightarrow> metrics4);
          metrics6 = (case elevation_data ''gain'' of
                        Some v \<Rightarrow> metrics5(''elevation_gain'' \<mapsto> v) | None \<Rightarrow> metrics5)
      in metrics6)"

text \<open>
  The key of \<^verbatim>\<open>GOOGLE_HEALTH_ID_TO_UNIFIED.get(exercise_type, WorkoutType.OTHER)\<close> is
  whatever the payload holds under \<^verbatim>\<open>exerciseType\<close>. A float or a boolean equal to an
  integer hashes and compares as that integer; \<^verbatim>\<open>None\<close> and strings are keys that the
  dictionary does not hold; lists and dicts are unhashable (\<open>TypeError\<close>).
\<close>

fun unified_type_of :: "json \<Rightarrow> pyerr + WorkoutType" where
  "unified_type_of (JInt i) = Inr (get_unified_workout_type_by_id i)"
| "unified_type_of (JBool b) = Inr (get_unified_workout_type_by_id (if b then 1 else 0))"
| "unified_type_of (JFloat r) =
     Inr (if of_int \<lfloor>r\<rfloor> = r then get_unified_workout_type_by_id \<lfloor>r\<rfloor> else OTHER)"
| "unified_type_of JNull = Inr OTHER"
| "unified_type_of (JStr s) = Inr OTHER"
| "unified_type_of (JList xs) = Inl TypeError"
| "unified_type_of (JDict kvs) = Inl TypeError"

text \<open>
  Sequencing of statements that may raise: the first exception ends the computation.
\<close>

definition and_then :: "'e + 'a \<Rightarrow> ('a \<Rightarrow> 'e + 'b) \<Rightarrow> 'e + 'b" where
  "and_then m f = (case m of Inl e \<Rightarrow> Inl e | Inr x \<Rightarrow> f x)"

text \<open>\<^verbatim>\<open>HealthConnectHandler._parse_exercise_session\<close>, statement by statement.\<close>

definition HealthConnect_parse_exercise_session ::
  "pylib \<Rightarrow> session_env \<Rightarrow> json \<Rightarrow> pyerr + (EventRecordCreate \<times> EventRecordDetailCreate)" where
  "HealthConnect_parse_exercise_session L env session =
     and_then (py_get session ''exerciseType'' (JInt 0)) (\<lambda>exercise_type.
     and_then (py_get session ''startTime'' (JStr [])) (\<lambda>start_str.
     and_then (HealthConnect_parse_datetime L (now_start env) start_str) (\<lambda>start_time.
     and_then (py_get session ''endTime'' (JStr [])) (\<lambda>end_str.
     and_then (HealthConnect_parse_datetime L (now_end env) end_str) (\<lambda>end_time.
     and_then (datetime_sub end_time start_time) (\<lambda>delta.
     and_then (py_get session ''metadata'' (JDict [])) (\<lambda>metadata.
     and_then (py_get metadata ''dataOrigin'' (JStr ''Google Health Connect'')) (\<lambda>source.
     and_then (py_get metadata ''device'' JNull) (\<lambda>device_name.
     and_then (HealthConnect_extract_distance L session) (\<lambda>distance_meters.
     and_then (HealthConnect_extract_calories L session) (\<lambda>calories.
     and_then (HealthConnect_extract_heart_rate L session) (\<lambda>heart_rate_data.
     and_then (HealthConnect_extract_elevation L session) (\<lambda>elevation_data.
     and_then (unified_type_of exercise_type) (\<lambda>unified_type.
     and_then (py_get session ''id'' JNull) (\<lambda>session_id.
       Inr (\<lparr>event_id = new_uuid env,
             category = ''workout'',
             workout_type = unified_type,
             source_name = source,
             device_id = (if truthy device_name then device_name else JNull),
             duration_seconds = total_seconds_int delta,
             start_datetime = start_time,
             end_datetime = end_time,
             provider_id = session_id,
             user_id = None\<rparr>,
            detail_of_metrics (new_uuid env)
              (HealthConnect_build_metrics heart_rate_data distance_meters calories
                 elevation_data)))))))))))))))))"

text \<open>
  The loop of \<^verbatim>\<open>HealthConnectHandler.normalize\<close>. The \<open>i\<close>-th session is parsed in
  the environment \<open>envs i\<close>. A session that raises is not appended; the handler of the
  exception then evaluates \<^verbatim>\<open>session.get("id", "unknown")\<close> for the log line, outside
  any \<^verbatim>\<open>try\<close>, so an exception of that call leaves the loop and \<^verbatim>\<open>normalize\<close>. The
  log collects the pairs (session id, exception) given to \<^verbatim>\<open>logger.error\<close>.
\<close>

fun normalize_sessions ::
  "pylib \<Rightarrow> (nat \<Rightarrow> session_env) \<Rightarrow> nat \<Rightarrow> json list
     \<Rightarrow> (EventRecordCreate \<times> EventRecordDetailCreate) list \<Rightarrow> (json \<times> pyerr) list
     \<Rightarrow> pyerr + ((EventRecordCreate \<times> EventRecordDetailCreate) list \<times> (json \<times> pyerr) list)" where
  "normalize_sessions L envs i [] workouts logged = Inr (workouts, logged)"
| "normalize_sessions L envs i (session # rest) workouts logged =
     (case HealthConnect_parse_exercise_session L (envs i) session of
        Inr pair \<Rightarrow> normalize_sessions L envs (Suc i) rest (workouts @ [pair]) logged
      | Inl e \<Rightarrow>
          (case py_get session ''id'' (JStr ''unknown'') of
             Inl e' \<Rightarrow> Inl e'
           | Inr session_id \<Rightarrow>
               normalize_sessions L envs (Suc i) rest workouts (logged @ [(session_id, e)])))"

text \<open>\<^verbatim>\<open>type(data)\<close> as the message of the \<open>ValueError\<close> prints it.\<close>

fun py_type :: "json \<Rightarrow> string" where
  "py_type JNull = ''<class 'NoneType'>''"
| "py_type (JBool b) = ''<class 'bool'>''"
| "py_type (JInt i) = ''<class 'int'>''"
| "py_type (JFloat r) = ''<class 'float'>''"
| "py_type (JStr s) = ''<class 'str'>''"
| "py_type (JList xs) = ''<class 'list'>''"
| "py_type (JDict kvs) = ''<class 'dict'>''"

text \<open>
  \<^verbatim>\<open>HealthConnectHandler.normalize\<close>: the result is the list of record pairs together
  with the log of skipped sessions.
\<close>

definition HealthConnect_normalize ::
  "pylib \<Rightarrow> (nat \<Rightarrow> session_env) \<Rightarrow> json
     \<Rightarrow> pyerr + ((EventRecordCreate \<times> EventRecordDetailCreate) list \<times> (json \<times> pyerr) list)" where
  "HealthConnect_normalize L envs data =
     (case data of
        JDict kvs \<Rightarrow> normalize_sessions L envs 0 [data] [] []
      | JList sessions \<Rightarrow> normalize_sessions L envs 0 sessions [] []
      | _ \<Rightarrow> Inl (ValueError (Some
                (''Unsupported data type for Health Connect parsing: '' @ py_type data))))"


section \<open>Provider strategy and factory\<close>

text \<open>
  \<^verbatim>\<open>GoogleHealthWorkouts.handlers\<close>: one handler, registered as \<^verbatim>\<open>health_connect\<close>.
\<close>

datatype GoogleHealthSourceHandler = HealthConnectHandler

definition handlers :: "string \<rightharpoonup> GoogleHealthSourceHandler" where
  "handlers = dict_of [(''health_connect'', HealthConnectHandler)]"

fun handler_normalize ::
  "GoogleHealthSourceHandler \<Rightarrow> pylib \<Rightarrow> (nat \<Rightarrow> session_env) \<Rightarrow> json
     \<Rightarrow> pyerr + ((EventRecordCreate \<times> EventRecordDetailCreate) list \<times> (json \<times> pyerr) list)" where
  "handler_normalize HealthConnectHandler L envs data = HealthConnect_normalize L envs data"

text \<open>
  Modelled from the spec: \<^verbatim>\<open>_save_workout\<close> belongs to \<^verbatim>\<open>BaseWorkoutsTemplate\<close>, which is
  not among the sources. The spec has the strategy forward each pair to the persistence
  collaborator; the database is the list of the pairs saved so far, and persistence
  errors are outside the model.
\<close>

type_synonym database = "(EventRecordCreate \<times> EventRecordDetailCreate) list"

definition save_workout :: "database \<Rightarrow> EventRecordCreate \<Rightarrow> EventRecordDetailCreate \<Rightarrow> database" where
  "save_workout db record detail = db @ [(record, detail)]"

text \<open>
  \<^verbatim>\<open>GoogleHealthWorkouts.process_payload\<close>: the result is the database as the call leaves
  it, and the exception that ended the call, if one did.
\<close>

definition process_payload ::
  "pylib \<Rightarrow> (nat \<Rightarrow> session_env) \<Rightarrow> database \<Rightarrow> nat \<Rightarrow> json \<Rightarrow> string
     \<Rightarrow> database \<times> pyerr option" where
  "process_payload L envs db uid payload source_type =
     (case handlers source_type of
        None \<Rightarrow>
          (db, Some (ValueError (Some (''Unknown Google Health Connect source: '' @ source_type))))
      | Some handler \<Rightarrow>
          (case handler_normalize handler L envs payload of
             Inl e \<Rightarrow> (db, Some e)
           | Inr (normalized_data, logged) \<Rightarrow>
               (fold (\<lambda>(record, detail) db'. save_workout db' (record\<lparr>user_id := Some uid\<rparr>) detail)
                     normalized_data db,
                None)))"

text \<open>
  \<^verbatim>\<open>ProviderFactory.get_provider\<close>. The strategy classes other than
  \<^verbatim>\<open>GoogleHealthStrategy\<close> are not among the sources; a strategy is represented by the
  name of its class.
\<close>

datatype BaseProviderStrategy =
  AppleStrategy | GarminStrategy | GoogleHealthStrategy | SuuntoStrategy | PolarStrategy

definition get_provider :: "string \<Rightarrow> pyerr + BaseProviderStrategy" where
  "get_provider provider_name =
     (if provider_name = ''apple'' then Inr AppleStrategy
      else if provider_name = ''garmin'' then Inr GarminStrategy
      else if provider_name = ''google_health'' then Inr GoogleHealthStrategy
      else if provider_name = ''suunto'' then Inr SuuntoStrategy
      else if provider_name = ''polar'' then Inr PolarStrategy
      else Inl (ValueError (Some (''Unknown provider: '' @ provider_name))))"


section \<open>The HealthKit handler: timestamps and unit conversion\<close>

text \<open>
  \<^verbatim>\<open>HealthKitHandler._parse_datetime\<close>. The argument is an XML attribute, a string. The
  third parser is called outside any \<^verbatim>\<open>try\<close>: its \<open>ValueError\<close> leaves the function.
\<close>

definition HealthKit_parse_datetime :: "pylib \<Rightarrow> int \<Rightarrow> string \<Rightarrow> pyerr + datetime" where
  "HealthKit_parse_datetime L now date_str =
     (if date_str = [] then Inr (naive now)
      else case strptime L date_str ''%Y-%m-%d %H:%M:%S %z'' of
        Some dt \<Rightarrow> Inr dt
      | None \<Rightarrow>
          (case strptime L date_str ''%Y-%m-%d %H:%M:%S'' of
             Some dt \<Rightarrow> Inr dt
           | None \<Rightarrow>
               (case fromisoformat L (replace_char CHR '' '' ''T'' date_str) of
                  Some dt \<Rightarrow> Inr dt
                | None \<Rightarrow> Inl (ValueError None))))"

text \<open>
  The three conversions take the attribute value as \<^verbatim>\<open>str | None\<close>. \<^verbatim>\<open>not value\<close> holds
  for \<^verbatim>\<open>None\<close> and for the empty string.
\<close>

definition HealthKit_parse_duration :: "pylib \<Rightarrow> string option \<Rightarrow> string \<Rightarrow> pyerr + int" where
  "HealthKit_parse_duration L v unit =
     (case v of
        None \<Rightarrow> Inr 0
      | Some s \<Rightarrow>
          if s = [] then Inr 0
          else case py_float L s of
            None \<Rightarrow> Inr 0
          | Some duration \<Rightarrow>
              if unit = ''min'' then int_of_scaled duration 60
              else if unit = ''hr'' then int_of_scaled duration 3600
              else if unit = ''s'' then int_of_scaled duration 1
              else int_of_scaled duration 60)"

text \<open>
  \<^verbatim>\<open>Decimal(value)\<close> raises \<open>InvalidOperation\<close> on a string that is no decimal
  literal; the handler \<^verbatim>\<open>except (ValueError, TypeError)\<close> does not catch it.
\<close>

definition HealthKit_parse_distance ::
  "pylib \<Rightarrow> string option \<Rightarrow> string option \<Rightarrow> pyerr + Decimal option" where
  "HealthKit_parse_distance L v unit =
     (case v of
        None \<Rightarrow> Inr None
      | Some s \<Rightarrow>
          if s = [] then Inr None
          else case py_Decimal L s of
            None \<Rightarrow> Inl InvalidOperation
          | Some distance \<Rightarrow>
              (case unit of
                 None \<Rightarrow> Inr (Some distance)
               | Some u \<Rightarrow>
                   if u = [] then Inr (Some distance)
                   else if u = ''km'' then Inr (Some (distance * 1000))
                   else if u = ''mi'' then Inr (Some (distance * 1609.34))
                   else if u = ''m'' then Inr (Some distance)
                   else if u = ''yd'' then Inr (Some (distance * 0.9144))
                   else Inr (Some distance)))"

definition HealthKit_parse_energy ::
  "pylib \<Rightarrow> string option \<Rightarrow> string \<Rightarrow> pyerr + Decimal option" where
  "HealthKit_parse_energy L v unit =
     (case v of
        None \<Rightarrow> Inr None
      | Some s \<Rightarrow>
          if s = [] then Inr None
          else case py_Decimal L s of
            None \<Rightarrow> Inl InvalidOperation
          | Some energy \<Rightarrow>
              if unit = ''Cal'' \<or> unit = ''kcal'' then Inr (Some energy)
              else if unit = ''kJ'' then Inr (Some (energy / 4.184))
              else Inr (Some energy))"


section \<open>A concrete library and concrete payloads\<close>

text \<open>
  To evaluate the model on concrete inputs, the library parameter is instantiated with
  parsers for the canonical zero-padded forms: \<^verbatim>\<open>YYYY-MM-DDTHH:MM:SS\<close> with an optional
  \<^verbatim>\<open>+HH:MM\<close> offset for \<^verbatim>\<open>fromisoformat\<close>, \<^verbatim>\<open>YYYY-MM-DD HH:MM:SS\<close> with an optional
  \<^verbatim>\<open> +HHMM\<close> offset for the two \<^verbatim>\<open>strptime\<close> formats of the HealthKit handler, and an
  optional sign, digits and an optional fraction for \<^verbatim>\<open>float\<close> and \<^verbatim>\<open>Decimal\<close>. These
  parsers reject every other string; CPython accepts more. They are used on the strings
  of the examples only, where they agree with CPython; every general theorem below is
  stated for an arbitrary library \<open>L\<close>.
\<close>

definition digit_of :: "char \<Rightarrow> nat option" where
  "digit_of c =
     (let n = (of_char c :: nat) in if 48 \<le> n \<and> n \<le> 57 then Some (n - 48) else None)"

fun number_of :: "string \<Rightarrow> nat \<Rightarrow> nat option" where
  "number_of [] acc = Some acc"
| "number_of (c # cs) acc =
     (case digit_of c of None \<Rightarrow> None | Some d \<Rightarrow> number_of cs (10 * acc + d))"

definition digits :: "string \<Rightarrow> nat option" where
  "digits s = (if s = [] then None else number_of s 0)"

text \<open>Days from 1970-01-01 to a date of the proleptic Gregorian calendar.\<close>

definition days_from_civil :: "int \<Rightarrow> int \<Rightarrow> int \<Rightarrow> int" where
  "days_from_civil y m d =
     (let y' = (if m \<le> 2 then y - 1 else y);
          era = y' div 400;
          yoe = y' - era * 400;
          mp = (m + 9) mod 12;
          doy = (153 * mp + 2) div 5 + d - 1;
          doe = yoe * 365 + yoe div 4 - yoe div 100 + doy
      in era * 146097 + doe - 719468)"

definition days_in_month :: "nat \<Rightarrow> nat \<Rightarrow> nat" where
  "days_in_month y m =
     (if m = 2 then (if y mod 4 = 0 \<and> (y mod 100 \<noteq> 0 \<or> y mod 400 = 0) then 29 else 28)
      else if m = 4 \<or> m = 6 \<or> m = 9 \<or> m = 11 then 30 else 31)"

definition civil_micros :: "nat \<Rightarrow> nat \<Rightarrow> nat \<Rightarrow> nat \<Rightarrow> nat \<Rightarrow> nat \<Rightarrow> int option" where
  "civil_micros y m d h mi s =
     (if 1 \<le> y \<and> 1 \<le> m \<and> m \<le> 12 \<and> 1 \<le> d \<and> d \<le> days_in_month y m
         \<and> h < 24 \<and> mi < 60 \<and> s < 60
      then Some ((((days_from_civil (int y) (int m) (int d) * 24 + int h) * 60 + int mi) * 60
                   + int s) * 1000000)
      else None)"

text \<open>The nineteen characters \<^verbatim>\<open>YYYY-MM-DD?HH:MM:SS\<close>, with \<open>sep\<close> between date and time.\<close>

definition civil_text :: "char \<Rightarrow> string \<Rightarrow> int option" where
  "civil_text sep s =
     (if length s = 19 \<and> s ! 4 = CHR ''-'' \<and> s ! 7 = CHR ''-'' \<and> s ! 10 = sep
         \<and> s ! 13 = CHR '':'' \<and> s ! 16 = CHR '':''
      then
        Option.bind (digits (take 4 s)) (\<lambda>y.
        Option.bind (digits (take 2 (drop 5 s))) (\<lambda>m.
        Option.bind (digits (take 2 (drop 8 s))) (\<lambda>d.
        Option.bind (digits (take 2 (drop 11 s))) (\<lambda>h.
        Option.bind (digits (take 2 (drop 14 s))) (\<lambda>mi.
        Option.bind (digits (take 2 (drop 17 s))) (\<lambda>sec.
          civil_micros y m d h mi sec))))))
      else None)"

text \<open>An offset: a sign, two digits of hours and two of minutes, in microseconds.\<close>

definition offset_micros :: "char \<Rightarrow> string \<Rightarrow> string \<Rightarrow> int option" where
  "offset_micros sign hh mm =
     (if sign = CHR ''+'' \<or> sign = CHR ''-'' then
        Option.bind (digits hh) (\<lambda>h.
        Option.bind (digits mm) (\<lambda>m.
          if h < 24 \<and> m < 60
          then Some ((if sign = CHR ''-'' then -1 else 1) * (int h * 60 + int m) * 60 * 1000000)
          else None))
      else None)"

definition fromisoformat0 :: "string \<Rightarrow> datetime option" where
  "fromisoformat0 s =
     (if length s = 19 then map_option naive (civil_text CHR ''T'' s)
      else if length s = 25 \<and> s ! 22 = CHR '':'' then
        Option.bind (civil_text CHR ''T'' (take 19 s)) (\<lambda>w.
        Option.bind (offset_micros (s ! 19) (take 2 (drop 20 s)) (take 2 (drop 23 s))) (\<lambda>off.
          Some \<lparr>wall = w, utcoffset = Some off\<rparr>))
      else None)"

definition strptime0 :: "string \<Rightarrow> string \<Rightarrow> datetime option" where
  "strptime0 s format =
     (if format = ''%Y-%m-%d %H:%M:%S'' then map_option naive (civil_text CHR '' '' s)
      else if format = ''%Y-%m-%d %H:%M:%S %z'' \<and> length s = 25 \<and> s ! 19 = CHR '' '' then
        Option.bind (civil_text CHR '' '' (take 19 s)) (\<lambda>w.
        Option.bind (offset_micros (s ! 20) (take 2 (drop 21 s)) (take 2 (drop 23 s))) (\<lambda>off.
          Some \<lparr>wall = w, utcoffset = Some off\<rparr>))
      else None)"

text \<open>A decimal literal: an optional sign, digits, and optionally a point and digits.\<close>

definition unsigned_literal :: "string \<Rightarrow> rat option" where
  "unsigned_literal s =
     (let whole = takeWhile (\<lambda>c. c \<noteq> CHR ''.'') s;
          rest = dropWhile (\<lambda>c. c \<noteq> CHR ''.'') s
      in Option.bind (digits whole) (\<lambda>n.
           if rest = [] then Some (of_nat n)
           else Option.bind (digits (tl rest)) (\<lambda>f.
                  Some (of_nat n + of_nat f / 10 ^ length (tl rest)))))"

definition decimal_literal :: "string \<Rightarrow> rat option" where
  "decimal_literal s =
     (case s of
        [] \<Rightarrow> None
      | c # cs \<Rightarrow>
          if c = CHR ''-'' then map_option uminus (unsigned_literal cs)
          else if c = CHR ''+'' then unsigned_literal cs
          else unsigned_literal s)"

definition pylib0 :: pylib where
  "pylib0 =
     \<lparr>fromisoformat = fromisoformat0,
      strptime = strptime0,
      py_float = (\<lambda>s. map_option Finite (decimal_literal s)),
      py_Decimal = decimal_literal\<rparr>"

text \<open>
  The clock and the identifiers of the examples: every call of \<^verbatim>\<open>datetime.now()\<close>
  reads 2026-01-01 00:00:00, and the \<open>i\<close>-th session gets the identifier \<open>i\<close>.
\<close>

definition envs0 :: "nat \<Rightarrow> session_env" where
  "envs0 i = \<lparr>now_start = 1767225600000000, now_end = 1767225600000000, new_uuid = i\<rparr>"

text \<open>The session of the spec's concrete scenario.\<close>

definition scenario_session :: json where
  "scenario_session =
     JDict [
       (''exerciseType'', JInt 79),
       (''startTime'', JStr ''2024-01-15T08:30:00Z''),
       (''endTime'', JStr ''2024-01-15T09:15:00Z''),
       (''distanceRecords'',
          JList [JDict [(''distance'', JDict [(''inMeters'', JFloat 5280.5)])]]),
       (''caloriesRecords'',
          JList [JDict [(''energy'', JDict [(''inKilocalories'', JInt 342)])]]),
       (''heartRateRecords'',
          JList [JDict [(''samples'',
            JList [JDict [(''beatsPerMinute'', JInt 125)],
                   JDict [(''beatsPerMinute'', JInt 142)],
                   JDict [(''beatsPerMinute'', JInt 138)],
                   JDict [(''beatsPerMinute'', JInt 155)],
                   JDict [(''beatsPerMinute'', JInt 148)]])]])
     ]"

text \<open>
  A session whose timestamps cannot be parsed and which has no sub-records; a session
  whose distance records and whose calories record sum to zero; and a session with a
  negative distance total, a negative calories total and elevation entries of both signs.
\<close>

definition untimed_session :: json where
  "untimed_session = JDict [(''startTime'', JStr []), (''endTime'', JStr ''not a date'')]"




section \<open>Properties of the taxonomy lookups\<close>

lemma dict_of_fold_dom:
  "dom (fold (\<lambda>(k, v) m. m(k \<mapsto> v)) kvs m0) = dom m0 \<union> fst ` set kvs"
  by (induction kvs arbitrary: m0) (auto split: prod.splits)

lemma dict_of_dom: "dom (dict_of kvs) = fst ` set kvs"
  by (simp add: dict_of_def dict_of_fold_dom)

lemma dict_get_absent: "k \<notin> dom d \<Longrightarrow> dict_get d k dflt = dflt"
  by (auto simp: dict_get_def split: option.splits)

text \<open>
  Claim C3. Both lookups are total functions (they return a \<open>WorkoutType\<close> for every
  argument, there is no error branch), and they default to \<open>OTHER\<close>: an integer code
  that is the id of no row of the mapping table is sent to \<open>OTHER\<close> by
  \<open>get_unified_workout_type_by_id\<close>, and a name that is the name of no row is sent to
  \<open>OTHER\<close> by \<open>get_unified_workout_type_by_name\<close>.
\<close>

theorem lookups_default_to_other:
  "(exercise_type_id \<notin> fst ` set GOOGLE_HEALTH_WORKOUT_TYPE_MAPPINGS
      \<longrightarrow> get_unified_workout_type_by_id exercise_type_id = OTHER) \<and>
   (exercise_type_name \<notin> (fst \<circ> snd) ` set GOOGLE_HEALTH_WORKOUT_TYPE_MAPPINGS
      \<longrightarrow> get_unified_workout_type_by_name exercise_type_name = OTHER)"
proof (intro conjI impI)
  assume absent: "exercise_type_id \<notin> fst ` set GOOGLE_HEALTH_WORKOUT_TYPE_MAPPINGS"
  have "dom GOOGLE_HEALTH_ID_TO_UNIFIED = fst ` set GOOGLE_HEALTH_WORKOUT_TYPE_MAPPINGS"
    unfolding GOOGLE_HEALTH_ID_TO_UNIFIED_def dict_of_dom by force
  with absent show "get_unified_workout_type_by_id exercise_type_id = OTHER"
    unfolding get_unified_workout_type_by_id_def by (simp add: dict_get_absent)
next
  assume absent: "exercise_type_name \<notin> (fst \<circ> snd) ` set GOOGLE_HEALTH_WORKOUT_TYPE_MAPPINGS"
  have "dom GOOGLE_HEALTH_NAME_TO_UNIFIED = (fst \<circ> snd) ` set GOOGLE_HEALTH_WORKOUT_TYPE_MAPPINGS"
    unfolding GOOGLE_HEALTH_NAME_TO_UNIFIED_def dict_of_dom by force
  with absent show "get_unified_workout_type_by_name exercise_type_name = OTHER"
    unfolding get_unified_workout_type_by_name_def by (simp add: dict_get_absent)
qed

theorem lookups_default_to_other_witness:
  "999 \<notin> fst ` set GOOGLE_HEALTH_WORKOUT_TYPE_MAPPINGS \<and>
   ''UNKNOWN'' \<notin> (fst \<circ> snd) ` set GOOGLE_HEALTH_WORKOUT_TYPE_MAPPINGS \<and>
   get_unified_workout_type_by_id 999 = OTHER \<and>
   get_unified_workout_type_by_name ''UNKNOWN'' = OTHER"
proof -
  have a: "999 \<notin> fst ` set GOOGLE_HEALTH_WORKOUT_TYPE_MAPPINGS"
    by (simp add: GOOGLE_HEALTH_WORKOUT_TYPE_MAPPINGS_def)
  have b: "''UNKNOWN'' \<notin> (fst \<circ> snd) ` set GOOGLE_HEALTH_WORKOUT_TYPE_MAPPINGS"
    by (simp add: GOOGLE_HEALTH_WORKOUT_TYPE_MAPPINGS_def)
  from a b lookups_default_to_other [of 999 "''UNKNOWN''"] show ?thesis by blast
qed


section \<open>Evaluating the handlers\<close>

lemma and_then_Inr [simp]: "and_then (Inr x) f = f x"
  by (simp add: and_then_def)

lemma and_then_Inl [simp]: "and_then (Inl e) f = Inl e"
  by (simp add: and_then_def)

lemmas lib0_defs =
  pylib0_def fromisoformat0_def strptime0_def civil_text_def digits_def digit_of_def
  civil_micros_def days_in_month_def days_from_civil_def offset_micros_def
  decimal_literal_def unsigned_literal_def Let_def

text \<open>
  The row \<^verbatim>\<open>(79, "EXERCISE_TYPE_RUNNING", WorkoutType.RUNNING)\<close> is followed, further
  down the table, by \<^verbatim>\<open>(79, "EXERCISE_TYPE_SOCCER", WorkoutType.SOCCER)\<close>; the
  dictionary keeps the later one.
\<close>

lemma unified_type_of_79: "get_unified_workout_type_by_id 79 = SOCCER"
  by (simp add: get_unified_workout_type_by_id_def GOOGLE_HEALTH_ID_TO_UNIFIED_def dict_of_def
      dict_get_def GOOGLE_HEALTH_WORKOUT_TYPE_MAPPINGS_def)

lemma scenario_start:
  "HealthConnect_parse_datetime pylib0 t (JStr ''2024-01-15T08:30:00Z'')
     = Inr \<lparr>wall = 1705307400000000, utcoffset = Some 0\<rparr>"
  by (simp add: HealthConnect_parse_datetime_def isoformat_argument_def endswith_def
      replace_char_def lib0_defs)

lemma scenario_end:
  "HealthConnect_parse_datetime pylib0 t (JStr ''2024-01-15T09:15:00Z'')
     = Inr \<lparr>wall = 1705310100000000, utcoffset = Some 0\<rparr>"
  by (simp add: HealthConnect_parse_datetime_def isoformat_argument_def endswith_def
      replace_char_def lib0_defs)

lemma scenario_parsed:
  "HealthConnect_parse_exercise_session pylib0 (envs0 i) scenario_session =
     Inr (\<lparr>event_id = i, category = ''workout'', workout_type = SOCCER,
            source_name = JStr ''Google Health Connect'', device_id = JNull,
            duration_seconds = 2700,
            start_datetime = \<lparr>wall = 1705307400000000, utcoffset = Some 0\<rparr>,
            end_datetime = \<lparr>wall = 1705310100000000, utcoffset = Some 0\<rparr>,
            provider_id = JNull, user_id = None\<rparr>,
          \<lparr>record_id = i, heart_rate_avg = Some 141.6,
            heart_rate_max = Some 155, heart_rate_min = Some 125,
            distance_total = Some 5280.5, calories_total = Some 342,
            elevation_gain = None, elevation_loss = None, temperature = None,
            humidity = None\<rparr>)"
  by (simp add: scenario_session_def HealthConnect_parse_exercise_session_def
      scenario_start scenario_end datetime_sub_def total_seconds_int_def py_int_def
      HealthConnect_extract_distance_def HealthConnect_extract_calories_def
      HealthConnect_extract_heart_rate_def HealthConnect_extract_elevation_def
      HealthConnect_build_metrics_def detail_of_metrics_def unified_type_of_79 envs0_def
      record_value_def nested_get_def)

lemma scenario_is_dict: "\<exists>kvs. scenario_session = JDict kvs"
  by (simp add: scenario_session_def)

lemma parse_session_of_int:
  "HealthConnect_parse_exercise_session L env (JInt n) = Inl AttributeError"
  by (simp add: HealthConnect_parse_exercise_session_def)

text \<open>
  Claim C1. For the single-session Health Connect payload of the spec's scenario
  (exerciseType 79, 08:30:00Z to 09:15:00Z, one distance record of 5280.5 m, one calories
  record of 342 kcal, heart-rate samples 125, 142, 138, 155, 148) the claim expects one
  record pair of canonical type Running. \<open>normalize\<close> does return exactly one pair,
  with \<open>duration_seconds\<close> 2700, \<open>distance_total\<close> 5280.5, \<open>calories_total\<close> 342,
  \<open>heart_rate_min\<close> 125, \<open>heart_rate_max\<close> 155 and \<open>heart_rate_avg\<close> 141.6, but its
  canonical type is \<open>SOCCER\<close>, not \<open>RUNNING\<close>: the lookup table binds the code 79 twice.
\<close>

theorem scenario_yields_soccer:
  "HealthConnect_normalize pylib0 envs0 scenario_session =
     Inr ([(\<lparr>event_id = 0, category = ''workout'', workout_type = SOCCER,
             source_name = JStr ''Google Health Connect'', device_id = JNull,
             duration_seconds = 2700,
             start_datetime = \<lparr>wall = 1705307400000000, utcoffset = Some 0\<rparr>,
             end_datetime = \<lparr>wall = 1705310100000000, utcoffset = Some 0\<rparr>,
             provider_id = JNull, user_id = None\<rparr>,
            \<lparr>record_id = 0, heart_rate_avg = Some 141.6,
             heart_rate_max = Some 155, heart_rate_min = Some 125,
             distance_total = Some 5280.5, calories_total = Some 342,
             elevation_gain = None, elevation_loss = None, temperature = None,
             humidity = None\<rparr>)],
          [])"
proof -
  obtain kvs where k: "scenario_session = JDict kvs"
    using scenario_is_dict by blast
  have "HealthConnect_normalize pylib0 envs0 scenario_session =
          normalize_sessions pylib0 envs0 0 [scenario_session] [] []"
    by (simp add: HealthConnect_normalize_def k)
  then show ?thesis
    by (simp add: scenario_parsed)
qed

text \<open>
  Claim C2. A list payload of N sessions of which K fail to parse should give N - K
  record pairs, with no exception leaving \<open>normalize\<close>. For the two-element list made
  of the scenario's session and the number 42 (N = 2, K = 1) the handler of the second
  session's exception calls \<^verbatim>\<open>session.get\<close> on the number, and that
  \<open>AttributeError\<close> leaves \<open>normalize\<close>: no pair is returned, not even the one of the
  well-formed first session.
\<close>

theorem non_object_session_escapes_normalize:
  "HealthConnect_normalize pylib0 envs0 (JList [scenario_session, JInt 42]) = Inl AttributeError"
  by (simp add: HealthConnect_normalize_def scenario_parsed parse_session_of_int)

section \<open>Fatal errors of a call\<close>

text \<open>
  Claim C8. If the top-level payload given to the Health Connect handler is neither an
  object nor an array, \<open>normalize\<close> raises the payload-shape error (a \<open>ValueError\<close>
  whose message names the payload's type), and \<open>process_payload\<close> ends with that
  error and leaves the database as it was: no record pair is returned or saved.
\<close>

theorem unsupported_payload_shape:
  "(\<forall>kvs. data \<noteq> JDict kvs) \<and> (\<forall>sessions. data \<noteq> JList sessions) \<longrightarrow>
     HealthConnect_normalize L envs data =
       Inl (ValueError (Some (''Unsupported data type for Health Connect parsing: '' @ py_type data))) \<and>
     process_payload L envs db uid data ''health_connect'' =
       (db, Some (ValueError (Some (''Unsupported data type for Health Connect parsing: '' @ py_type data))))"
  by (cases data) (simp_all add: HealthConnect_normalize_def process_payload_def handlers_def dict_of_def)

theorem unsupported_payload_shape_witness:
  "(\<forall>kvs. JStr ''not a dict or list'' \<noteq> JDict kvs) \<and>
   (\<forall>sessions. JStr ''not a dict or list'' \<noteq> JList sessions) \<and>
   HealthConnect_normalize pylib0 envs0 (JStr ''not a dict or list'') =
     Inl (ValueError (Some ''Unsupported data type for Health Connect parsing: <class 'str'>'')) \<and>
   process_payload pylib0 envs0 [] 7 (JStr ''not a dict or list'') ''health_connect'' =
     ([], Some (ValueError (Some ''Unsupported data type for Health Connect parsing: <class 'str'>'')))"
  using unsupported_payload_shape [of "JStr ''not a dict or list''" pylib0 envs0 "[]" 7]
  by simp

text \<open>
  Claim C9. For every provider name outside apple, garmin, google_health, suunto and
  polar, \<open>get_provider\<close> raises the configuration error (a \<open>ValueError\<close> naming the
  provider) and returns no strategy; for every source type with no registered handler,
  \<open>process_payload\<close> ends with the configuration error naming the source type, before
  anything is normalized, and leaves the database as it was.
\<close>

theorem unknown_provider_or_source:
  "(provider_name \<notin> {''apple'', ''garmin'', ''google_health'', ''suunto'', ''polar''} \<longrightarrow>
      get_provider provider_name = Inl (ValueError (Some (''Unknown provider: '' @ provider_name)))) \<and>
   (source_type \<notin> dom handlers \<longrightarrow>
      process_payload L envs db uid payload source_type =
        (db, Some (ValueError (Some (''Unknown Google Health Connect source: '' @ source_type)))))"
  by (auto simp: get_provider_def process_payload_def split: option.splits)

theorem unknown_provider_or_source_witness:
  "''fitbit'' \<notin> {''apple'', ''garmin'', ''google_health'', ''suunto'', ''polar''} \<and>
   ''invalid_source'' \<notin> dom handlers \<and>
   get_provider ''fitbit'' = Inl (ValueError (Some ''Unknown provider: fitbit'')) \<and>
   process_payload pylib0 envs0 [] 7 scenario_session ''invalid_source'' =
     ([], Some (ValueError (Some ''Unknown Google Health Connect source: invalid_source'')))"
proof -
  have a: "''fitbit'' \<notin> {''apple'', ''garmin'', ''google_health'', ''suunto'', ''polar''}"
    by simp
  have b: "''invalid_source'' \<notin> dom handlers"
    by (simp add: handlers_def dict_of_def)
  from a b
    unknown_provider_or_source [of "''fitbit''" "''invalid_source''" pylib0 envs0 "[]" 7 scenario_session]
  show ?thesis by simp
qed


section \<open>Unit conversion in the HealthKit handler\<close>

lemma lib0_float_abc: "py_float pylib0 ''abc'' = None"
  by (simp add: lib0_defs)

lemma lib0_float_2_5: "py_float pylib0 ''2.5'' = Some (Finite 2.5)"
  by (simp add: lib0_defs)

lemma lib0_Decimal_abc: "py_Decimal pylib0 ''abc'' = None"
  by (simp add: lib0_defs)

lemma lib0_Decimal_12_5: "py_Decimal pylib0 ''12.5'' = Some 12.5"
  by (simp add: lib0_defs)

text \<open>
  Claim C4, as amended. The distance and the energy conversion return "no value" when
  the raw value is absent or empty. The duration conversion has no "no value": it
  returns 0 seconds when the raw value is absent, empty or rejected by \<^verbatim>\<open>float\<close>. None of
  the three raises on an absent or empty value, and the duration conversion does not
  raise on a value that \<^verbatim>\<open>float\<close> rejects. When the value parses and the unit tag is not
  one of the recognized ones, the duration is taken as minutes, the distance as meters
  and the energy as kilocalories. (What the distance and the energy conversion do with a
  value that \<^verbatim>\<open>Decimal\<close> rejects is not part of the statement.)
\<close>

theorem unit_conversion_defaults:
  "(v = None \<or> v = Some [] \<or> (\<exists>s. v = Some s \<and> py_float L s = None)
      \<longrightarrow> HealthKit_parse_duration L v unit = Inr 0) \<and>
   (v = None \<or> v = Some []
      \<longrightarrow> HealthKit_parse_distance L v distance_unit = Inr None \<and>
          HealthKit_parse_energy L v unit = Inr None) \<and>
   (s \<noteq> [] \<and> py_float L s = Some x \<and> unit \<notin> {''min'', ''hr'', ''s''}
      \<longrightarrow> HealthKit_parse_duration L (Some s) unit = int_of_scaled x 60 \<and>
          HealthKit_parse_duration L (Some s) ''min'' = int_of_scaled x 60) \<and>
   (s \<noteq> [] \<and> py_Decimal L s = Some d
        \<and> distance_unit \<notin> {Some ''km'', Some ''mi'', Some ''m'', Some ''yd''}
      \<longrightarrow> HealthKit_parse_distance L (Some s) distance_unit = Inr (Some d) \<and>
          HealthKit_parse_distance L (Some s) (Some ''m'') = Inr (Some d)) \<and>
   (s \<noteq> [] \<and> py_Decimal L s = Some d \<and> unit \<notin> {''Cal'', ''kcal'', ''kJ''}
      \<longrightarrow> HealthKit_parse_energy L (Some s) unit = Inr (Some d) \<and>
          HealthKit_parse_energy L (Some s) ''kcal'' = Inr (Some d))"
proof (intro conjI impI)
  assume "v = None \<or> v = Some [] \<or> (\<exists>s. v = Some s \<and> py_float L s = None)"
  then show "HealthKit_parse_duration L v unit = Inr 0"
    by (auto simp: HealthKit_parse_duration_def)
next
  assume a: "v = None \<or> v = Some []"
  from a show "HealthKit_parse_distance L v distance_unit = Inr None"
    by (auto simp: HealthKit_parse_distance_def)
  from a show "HealthKit_parse_energy L v unit = Inr None"
    by (auto simp: HealthKit_parse_energy_def)
next
  assume a: "s \<noteq> [] \<and> py_float L s = Some x \<and> unit \<notin> {''min'', ''hr'', ''s''}"
  from a show "HealthKit_parse_duration L (Some s) unit = int_of_scaled x 60"
    by (simp add: HealthKit_parse_duration_def)
  from a show "HealthKit_parse_duration L (Some s) ''min'' = int_of_scaled x 60"
    by (simp add: HealthKit_parse_duration_def)
next
  assume a: "s \<noteq> [] \<and> py_Decimal L s = Some d
        \<and> distance_unit \<notin> {Some ''km'', Some ''mi'', Some ''m'', Some ''yd''}"
  from a show "HealthKit_parse_distance L (Some s) distance_unit = Inr (Some d)"
    by (cases distance_unit) (simp_all add: HealthKit_parse_distance_def)
  from a show "HealthKit_parse_distance L (Some s) (Some ''m'') = Inr (Some d)"
    by (simp add: HealthKit_parse_distance_def)
next
  assume a: "s \<noteq> [] \<and> py_Decimal L s = Some d \<and> unit \<notin> {''Cal'', ''kcal'', ''kJ''}"
  from a show "HealthKit_parse_energy L (Some s) unit = Inr (Some d)"
    by (simp add: HealthKit_parse_energy_def)
  from a show "HealthKit_parse_energy L (Some s) ''kcal'' = Inr (Some d)"
    by (simp add: HealthKit_parse_energy_def)
qed

theorem unit_conversion_defaults_witness:
  "py_float pylib0 ''abc'' = None \<and>
   HealthKit_parse_duration pylib0 (Some ''abc'') ''hr'' = Inr 0 \<and>
   HealthKit_parse_distance pylib0 None (Some ''km'') = Inr None \<and>
   HealthKit_parse_energy pylib0 None ''kJ'' = Inr None \<and>
   py_float pylib0 ''2.5'' = Some (Finite 2.5) \<and> ''fortnight'' \<notin> {''min'', ''hr'', ''s''} \<and>
   HealthKit_parse_duration pylib0 (Some ''2.5'') ''fortnight'' = Inr 150 \<and>
   py_Decimal pylib0 ''12.5'' = Some 12.5 \<and>
   Some ''furlong'' \<notin> {Some ''km'', Some ''mi'', Some ''m'', Some ''yd''} \<and>
   HealthKit_parse_distance pylib0 (Some ''12.5'') (Some ''furlong'') = Inr (Some 12.5) \<and>
   ''BTU'' \<notin> {''Cal'', ''kcal'', ''kJ''} \<and>
   HealthKit_parse_energy pylib0 (Some ''12.5'') ''BTU'' = Inr (Some 12.5)"
proof -
  have a: "HealthKit_parse_duration pylib0 (Some ''abc'') ''hr'' = Inr 0"
    using unit_conversion_defaults [where v = "Some ''abc''" and L = pylib0 and unit = "''hr''"]
      lib0_float_abc by blast
  have b: "HealthKit_parse_distance pylib0 None (Some ''km'') = Inr None \<and>
           HealthKit_parse_energy pylib0 None ''kJ'' = Inr None"
    using unit_conversion_defaults [where v = None and L = pylib0 and unit = "''kJ''"
        and distance_unit = "Some ''km''"] by blast
  have c: "HealthKit_parse_duration pylib0 (Some ''2.5'') ''fortnight'' = Inr 150"
    using unit_conversion_defaults [where L = pylib0 and unit = "''fortnight''"
        and s = "''2.5''" and x = "Finite 2.5"] lib0_float_2_5
    by (simp add: py_int_def)
  have d: "HealthKit_parse_distance pylib0 (Some ''12.5'') (Some ''furlong'') = Inr (Some 12.5)"
    using unit_conversion_defaults [where L = pylib0 and distance_unit = "Some ''furlong''"
        and s = "''12.5''" and d = "12.5"] lib0_Decimal_12_5
    by simp
  have e: "HealthKit_parse_energy pylib0 (Some ''12.5'') ''BTU'' = Inr (Some 12.5)"
    using unit_conversion_defaults [where L = pylib0 and unit = "''BTU''"
        and s = "''12.5''" and d = "12.5"] lib0_Decimal_12_5
    by simp
  from a b c d e lib0_float_abc lib0_float_2_5 lib0_Decimal_12_5 show ?thesis by simp
qed

text \<open>
  Claim C4 as stated fails twice: with no raw value the duration conversion returns the
  number 0, not "no value"; and a garbled value makes the distance and the energy
  conversion raise \<open>InvalidOperation\<close>, which their \<^verbatim>\<open>except (ValueError, TypeError)\<close>
  does not catch.
\<close>

theorem unit_conversion_counterexample:
  "HealthKit_parse_duration pylib0 None ''min'' = Inr 0 \<and>
   HealthKit_parse_distance pylib0 (Some ''abc'') (Some ''km'') = Inl InvalidOperation \<and>
   HealthKit_parse_energy pylib0 (Some ''abc'') ''kcal'' = Inl InvalidOperation"
  by (simp add: HealthKit_parse_duration_def HealthKit_parse_distance_def
      HealthKit_parse_energy_def lib0_Decimal_abc)


section \<open>Aggregation of sub-records\<close>


subsection \<open>Sums of sub-records\<close>





lemma sum_list_positive:
  "0 \<le> sum_list (filter (\<lambda>x. 0 < x) (xs :: rat list))"
  by (induction xs) auto

subsection \<open>Heart rate\<close>











section \<open>Timestamps that cannot be parsed\<close>

lemma py_get_Inr_dict: "py_get x key dflt = Inr v \<Longrightarrow> \<exists>kvs. x = JDict kvs"
  by (cases x) simp_all

lemma HealthConnect_parse_datetime_fallback:
  "s = [] \<or> fromisoformat L (isoformat_argument s) = None
     \<Longrightarrow> HealthConnect_parse_datetime L now (JStr s) = Inr (naive now)"
  by (auto simp: HealthConnect_parse_datetime_def)

lemma datetime_sub_naive: "datetime_sub (naive a) (naive b) = Inr (a - b)"
  by (simp add: datetime_sub_def naive_def)

lemma not_a_date_rejected:
  "fromisoformat pylib0 (isoformat_argument ''not a date'') = None"
  "strptime pylib0 ''not a date'' ''%Y-%m-%d %H:%M:%S %z'' = None"
  "strptime pylib0 ''not a date'' ''%Y-%m-%d %H:%M:%S'' = None"
  "fromisoformat pylib0 (replace_char CHR '' '' ''T'' ''not a date'') = None"
  by (simp_all add: isoformat_argument_def endswith_def replace_char_def lib0_defs)

lemma unified_type_of_0: "unified_type_of (JInt 0) = Inr OTHER"
  by (simp add: get_unified_workout_type_by_id_def GOOGLE_HEALTH_ID_TO_UNIFIED_def dict_of_def
      dict_get_def GOOGLE_HEALTH_WORKOUT_TYPE_MAPPINGS_def)

lemma untimed_session_parts:
  "py_get untimed_session ''startTime'' (JStr []) = Inr (JStr [])"
  "py_get untimed_session ''endTime'' (JStr []) = Inr (JStr ''not a date'')"
  "py_get untimed_session ''metadata'' (JDict []) = Inr (JDict [])"
  "py_get untimed_session ''exerciseType'' (JInt 0) = Inr (JInt 0)"
  "HealthConnect_extract_distance L untimed_session = Inr None"
  "HealthConnect_extract_calories L untimed_session = Inr None"
  "HealthConnect_extract_heart_rate L untimed_session = Inr Map.empty"
  "HealthConnect_extract_elevation L untimed_session = Inr Map.empty"
  by (simp_all add: untimed_session_def HealthConnect_extract_distance_def
      HealthConnect_extract_calories_def HealthConnect_extract_heart_rate_def
      HealthConnect_extract_elevation_def)

text \<open>
  Claim C5, as amended. In the Health Connect handler a start or end timestamp string
  that is empty, or that \<^verbatim>\<open>fromisoformat\<close> rejects, is replaced by the current wall-clock
  time, and \<open>_parse_datetime\<close> does not raise. In the HealthKit handler
  \<open>_parse_datetime\<close> substitutes the current time for an empty string only: a non-empty
  string that neither \<^verbatim>\<open>strptime\<close> format nor \<^verbatim>\<open>fromisoformat\<close> accepts raises
  \<open>ValueError\<close>. A Health Connect session both of whose timestamps are replaced still
  produces a record pair, provided the rest of the session parses: its start and end are
  the two readings of the clock and its duration is their difference in whole seconds.
  (What happens to a session with one replaced and one parsed timestamp is not part of
  the statement.)
\<close>

theorem timestamp_fallback:
  "(s = [] \<or> fromisoformat L (isoformat_argument s) = None
      \<longrightarrow> HealthConnect_parse_datetime L now (JStr s) = Inr (naive now)) \<and>
   HealthKit_parse_datetime L now [] = Inr (naive now) \<and>
   (s \<noteq> [] \<and> strptime L s ''%Y-%m-%d %H:%M:%S %z'' = None
        \<and> strptime L s ''%Y-%m-%d %H:%M:%S'' = None
        \<and> fromisoformat L (replace_char CHR '' '' ''T'' s) = None
      \<longrightarrow> HealthKit_parse_datetime L now s = Inl (ValueError None)) \<and>
   (py_get session ''startTime'' (JStr []) = Inr (JStr s1)
        \<and> (s1 = [] \<or> fromisoformat L (isoformat_argument s1) = None)
        \<and> py_get session ''endTime'' (JStr []) = Inr (JStr s2)
        \<and> (s2 = [] \<or> fromisoformat L (isoformat_argument s2) = None)
        \<and> py_get session ''metadata'' (JDict []) = Inr (JDict md)
        \<and> py_get session ''exerciseType'' (JInt 0) = Inr exercise_type
        \<and> unified_type_of exercise_type = Inr unified_type
        \<and> HealthConnect_extract_distance L session = Inr distance_meters
        \<and> HealthConnect_extract_calories L session = Inr calories
        \<and> HealthConnect_extract_heart_rate L session = Inr heart_rate_data
        \<and> HealthConnect_extract_elevation L session = Inr elevation_data
      \<longrightarrow> (\<exists>record detail.
            HealthConnect_parse_exercise_session L env session = Inr (record, detail) \<and>
            start_datetime record = naive (now_start env) \<and>
            end_datetime record = naive (now_end env) \<and>
            duration_seconds record = total_seconds_int (now_end env - now_start env)))"
proof (intro conjI impI)
  assume "s = [] \<or> fromisoformat L (isoformat_argument s) = None"
  then show "HealthConnect_parse_datetime L now (JStr s) = Inr (naive now)"
    by (rule HealthConnect_parse_datetime_fallback)
next
  show "HealthKit_parse_datetime L now [] = Inr (naive now)"
    by (simp add: HealthKit_parse_datetime_def)
next
  assume "s \<noteq> [] \<and> strptime L s ''%Y-%m-%d %H:%M:%S %z'' = None
        \<and> strptime L s ''%Y-%m-%d %H:%M:%S'' = None
        \<and> fromisoformat L (replace_char CHR '' '' ''T'' s) = None"
  then show "HealthKit_parse_datetime L now s = Inl (ValueError None)"
    by (simp add: HealthKit_parse_datetime_def)
next
  assume a: "py_get session ''startTime'' (JStr []) = Inr (JStr s1)
        \<and> (s1 = [] \<or> fromisoformat L (isoformat_argument s1) = None)
        \<and> py_get session ''endTime'' (JStr []) = Inr (JStr s2)
        \<and> (s2 = [] \<or> fromisoformat L (isoformat_argument s2) = None)
        \<and> py_get session ''metadata'' (JDict []) = Inr (JDict md)
        \<and> py_get session ''exerciseType'' (JInt 0) = Inr exercise_type
        \<and> unified_type_of exercise_type = Inr unified_type
        \<and> HealthConnect_extract_distance L session = Inr distance_meters
        \<and> HealthConnect_extract_calories L session = Inr calories
        \<and> HealthConnect_extract_heart_rate L session = Inr heart_rate_data
        \<and> HealthConnect_extract_elevation L session = Inr elevation_data"
  then obtain kvs where k: "session = JDict kvs"
    using py_get_Inr_dict by blast
  from a have t1: "HealthConnect_parse_datetime L (now_start env) (JStr s1) = Inr (naive (now_start env))"
    by (intro HealthConnect_parse_datetime_fallback) simp
  from a have t2: "HealthConnect_parse_datetime L (now_end env) (JStr s2) = Inr (naive (now_end env))"
    by (intro HealthConnect_parse_datetime_fallback) simp
  have i: "\<exists>sid. py_get session ''id'' JNull = Inr sid"
    by (simp add: k)
  then obtain sid where sid: "py_get session ''id'' JNull = Inr sid" ..
  show "\<exists>record detail.
            HealthConnect_parse_exercise_session L env session = Inr (record, detail) \<and>
            start_datetime record = naive (now_start env) \<and>
            end_datetime record = naive (now_end env) \<and>
            duration_seconds record = total_seconds_int (now_end env - now_start env)"
    using a t1 t2 sid
    by (simp add: HealthConnect_parse_exercise_session_def datetime_sub_naive)
qed

theorem timestamp_fallback_witness:
  "fromisoformat pylib0 (isoformat_argument ''not a date'') = None \<and>
   HealthConnect_parse_datetime pylib0 5 (JStr ''not a date'') = Inr (naive 5) \<and>
   HealthKit_parse_datetime pylib0 5 [] = Inr (naive 5) \<and>
   HealthKit_parse_datetime pylib0 5 ''not a date'' = Inl (ValueError None) \<and>
   (\<exists>record detail.
      HealthConnect_parse_exercise_session pylib0 (envs0 0) untimed_session = Inr (record, detail) \<and>
      start_datetime record = naive (now_start (envs0 0)) \<and>
      end_datetime record = naive (now_end (envs0 0)) \<and>
      duration_seconds record = 0)"
  using timestamp_fallback [where L = pylib0 and s = "''not a date''" and now = 5
      and session = untimed_session and ?s1.0 = "[]" and ?s2.0 = "''not a date''" and md = "[]"
      and exercise_type = "JInt 0" and unified_type = OTHER and distance_meters = None
      and calories = None and heart_rate_data = Map.empty and elevation_data = Map.empty
      and env = "envs0 0"]
    not_a_date_rejected unified_type_of_0 untimed_session_parts
  by (simp add: envs0_def total_seconds_int_def py_int_def)

text \<open>
  Claim C5 as stated fails in the HealthKit handler: a timestamp that is wholly
  unparsable is not replaced by the current time, the \<open>ValueError\<close> of the last parser
  leaves \<open>_parse_datetime\<close>.
\<close>

theorem healthkit_timestamp_counterexample:
  "HealthKit_parse_datetime pylib0 1767225600000000 ''garbage'' = Inl (ValueError None)"
  by (simp add: HealthKit_parse_datetime_def replace_char_def lib0_defs)


section \<open>Totals and statistics in the detail\<close>








section \<open>Empty and zero-sum sub-records\<close>








section \<open>Heart-rate statistics\<close>





section \<open>Additive metrics are present exactly when positive\<close>








section \<open>Isolation of failing sessions\<close>

text \<open>
  What the loop of \<open>normalize\<close> does guarantee: when every element of the list is an
  object, no exception leaves \<open>normalize\<close>, every session is either returned as a pair
  or logged, and the number of logged sessions is the number of sessions whose parse
  raised. (The \<open>j\<close>-th session is parsed in the environment \<open>envs j\<close>.)
\<close>

lemma normalize_sessions_objects:
  assumes "list_all (\<lambda>s. \<exists>kvs. s = JDict kvs) sessions"
  shows "\<exists>ws ls.
           normalize_sessions L envs i sessions workouts logged =
             Inr (workouts @ ws, logged @ ls) \<and>
           length ws + length ls = length sessions \<and>
           length ls =
             length (filter (\<lambda>(j, s). isl (HealthConnect_parse_exercise_session L (envs j) s))
                       (List.enumerate i sessions))"
  using assms
proof (induction sessions arbitrary: i workouts logged)
  case Nil
  then show ?case by simp
next
  case (Cons session rest)
  then obtain kvs where k: "session = JDict kvs"
    by auto
  from Cons.prems have r: "list_all (\<lambda>s. \<exists>kvs. s = JDict kvs) rest"
    by simp
  show ?case
  proof (cases "HealthConnect_parse_exercise_session L (envs i) session")
    case (Inl e)
    from Cons.IH [OF r, of "Suc i" workouts
        "logged @ [(case map_of kvs ''id'' of None \<Rightarrow> JStr ''unknown'' | Some v \<Rightarrow> v, e)]"]
    obtain ws ls where
      "normalize_sessions L envs (Suc i) rest workouts
         (logged @ [(case map_of kvs ''id'' of None \<Rightarrow> JStr ''unknown'' | Some v \<Rightarrow> v, e)]) =
         Inr (workouts @ ws,
              (logged @ [(case map_of kvs ''id'' of None \<Rightarrow> JStr ''unknown'' | Some v \<Rightarrow> v, e)]) @ ls)"
      and "length ws + length ls = length rest"
      and "length ls =
             length (filter (\<lambda>(j, s). isl (HealthConnect_parse_exercise_session L (envs j) s))
                       (List.enumerate (Suc i) rest))"
      by blast
    with Inl k show ?thesis
      by (intro exI [of _ ws]
          exI [of _ "(case map_of kvs ''id'' of None \<Rightarrow> JStr ''unknown'' | Some v \<Rightarrow> v, e) # ls"])
        simp
  next
    case (Inr pair)
    from Cons.IH [OF r, of "Suc i" "workouts @ [pair]" logged]
    obtain ws ls where
      "normalize_sessions L envs (Suc i) rest (workouts @ [pair]) logged =
         Inr ((workouts @ [pair]) @ ws, logged @ ls)"
      and "length ws + length ls = length rest"
      and "length ls =
             length (filter (\<lambda>(j, s). isl (HealthConnect_parse_exercise_session L (envs j) s))
                       (List.enumerate (Suc i) rest))"
      by blast
    with Inr show ?thesis
      by (intro exI [of _ "pair # ws"] exI [of _ ls]) simp
  qed
qed

lemma normalize_objects_never_raises:
  assumes "list_all (\<lambda>s. \<exists>kvs. s = JDict kvs) sessions"
  shows "\<exists>workouts logged.
           HealthConnect_normalize L envs (JList sessions) = Inr (workouts, logged) \<and>
           length workouts + length logged = length sessions \<and>
           length logged =
             length (filter (\<lambda>(j, s). isl (HealthConnect_parse_exercise_session L (envs j) s))
                       (List.enumerate 0 sessions))"
  using normalize_sessions_objects [OF assms, of L envs 0 "[]" "[]"]
  by (simp add: HealthConnect_normalize_def)

text \<open>
  A session that is skipped although its timestamps are handled as intended: the empty
  start time is replaced by the naive current time, the end time parses to a
  timezone-aware datetime, and their difference is a \<open>TypeError\<close>.
\<close>

lemma mixed_awareness_session_is_skipped:
  "HealthConnect_normalize pylib0 envs0
     (JList [JDict [(''startTime'', JStr []), (''endTime'', JStr ''2024-01-15T09:15:00Z'')]])
     = Inr ([], [(JStr ''unknown'', TypeError)])"
proof -
  have "HealthConnect_parse_datetime pylib0 t (JStr []) = Inr (naive t)" for t
    by (simp add: HealthConnect_parse_datetime_def)
  then show ?thesis
    by (simp add: HealthConnect_normalize_def HealthConnect_parse_exercise_session_def
        scenario_end naive_def datetime_sub_def)
qed


end
